theory Spec2Isabelle
  imports Complex_Main
begin

section \<open>Python values held by a decoded JSON document\<close>

text \<open>
  \<^verbatim>\<open>response.json()\<close> yields Python objects: \<^verbatim>\<open>None\<close>, \<^verbatim>\<open>bool\<close>, \<^verbatim>\<open>int\<close>,
  \<^verbatim>\<open>float\<close>, \<^verbatim>\<open>str\<close>, \<^verbatim>\<open>list\<close> and \<^verbatim>\<open>dict\<close> with \<^verbatim>\<open>str\<close> keys. A dict is an
  association list in insertion order; a decoded document never repeats a key in one dict.
  A float is either a finite rational (both zeros are \<open>Finite 0\<close>) or one of the three
  special values that Python's decoder accepts.
\<close>

datatype pyfloat = Finite rat | PosInf | NegInf | NaN

datatype json =
    JNull
  | JBool bool
  | JInt int
  | JFloat pyfloat
  | JStr string
  | JArr "json list"
  | JObj "(string \<times> json) list"

text \<open>The exceptions that the modelled code can meet; all derive from \<^verbatim>\<open>Exception\<close>.\<close>

datatype exn =
    TypeError
  | AttributeError
  | KeyError
  | IndexError
  | NameError
  | JSONDecodeError
  | RequestException

text \<open>Sequencing of computations that may raise: the first exception wins.\<close>

definition and_then :: "exn + 'a \<Rightarrow> ('a \<Rightarrow> exn + 'b) \<Rightarrow> exn + 'b" where
  "and_then r f = (case r of Inl e \<Rightarrow> Inl e | Inr v \<Rightarrow> f v)"

text \<open>Python truth value of an object, as tested by \<^verbatim>\<open>x if lst else y\<close>.\<close>

fun truthy :: "json \<Rightarrow> bool" where
  "truthy JNull = False"
| "truthy (JBool b) = b"
| "truthy (JInt i) = (i \<noteq> 0)"
| "truthy (JFloat f) = (f \<noteq> Finite 0)"
| "truthy (JStr s) = (s \<noteq> [])"
| "truthy (JArr xs) = (xs \<noteq> [])"
| "truthy (JObj kvs) = (kvs \<noteq> [])"

text \<open>\<^verbatim>\<open>obj.get(key, default)\<close>: only a dict has the method.\<close>

fun py_get :: "json \<Rightarrow> string \<Rightarrow> json \<Rightarrow> exn + json" where
  "py_get (JObj kvs) key dflt = Inr (case map_of kvs key of None \<Rightarrow> dflt | Some v \<Rightarrow> v)"
| "py_get _ key dflt = Inl AttributeError"

text \<open>
  \<^verbatim>\<open>obj[0]\<close>: the first element of a list, the first character of a string (as a
  string); a dict has no key \<^verbatim>\<open>0\<close> since its keys are strings; nothing else is
  subscriptable.
\<close>

fun py_index0 :: "json \<Rightarrow> exn + json" where
  "py_index0 (JArr []) = Inl IndexError"
| "py_index0 (JArr (x # xs)) = Inr x"
| "py_index0 (JStr []) = Inl IndexError"
| "py_index0 (JStr (c # cs)) = Inr (JStr [c])"
| "py_index0 (JObj kvs) = Inl KeyError"
| "py_index0 _ = Inl TypeError"

text \<open>\<^verbatim>\<open>obj["key"]\<close> with a string key: a dict lookup that raises on a missing key.\<close>

fun py_item :: "json \<Rightarrow> string \<Rightarrow> exn + json" where
  "py_item (JObj kvs) key = (case map_of kvs key of None \<Rightarrow> Inl KeyError | Some v \<Rightarrow> Inr v)"
| "py_item _ key = Inl TypeError"

text \<open>
  \<^verbatim>\<open>for page in obj\<close>: the elements of a list, the characters of a string, the keys of
  a dict; every other object is not iterable.
\<close>

fun py_iter :: "json \<Rightarrow> exn + json list" where
  "py_iter (JArr xs) = Inr xs"
| "py_iter (JStr s) = Inr (map (\<lambda>c. JStr [c]) s)"
| "py_iter (JObj kvs) = Inr (map (\<lambda>kv. JStr (fst kv)) kvs)"
| "py_iter _ = Inl TypeError"

section \<open>Library functions and process-wide configuration\<close>

record student_profile =
  s_name :: string
  s_skills :: string
  s_interests :: string

text \<open>
  One entry of the list built by \<^verbatim>\<open>fetch_jobs_from_notion\<close>. The key \<^verbatim>\<open>"role"\<close> holds
  an f-string, hence a string; the other three hold whatever object the page carried.
\<close>

record job =
  role :: string
  company :: json
  skills :: json
  description :: json

text \<open>
  Python's own text conversions are not code of the repository and are taken as
  parameters: \<open>str_value\<close> is \<^verbatim>\<open>format(v, "")\<close> on an object that is not a string,
  \<open>str_profile\<close> is \<^verbatim>\<open>str\<close> of the profile dict, \<open>json_dumps\<close> is \<^verbatim>\<open>json.dumps\<close>
  of the job list.
\<close>

record pylib =
  str_value :: "json \<Rightarrow> string"
  str_profile :: "student_profile \<Rightarrow> string"
  json_dumps :: "job list \<Rightarrow> string"

text \<open>A replacement field of an f-string: a string is inserted as it is.\<close>

definition py_format :: "pylib \<Rightarrow> json \<Rightarrow> string" where
  "py_format lib v = (case v of JStr s \<Rightarrow> s | _ \<Rightarrow> str_value lib v)"

text \<open>
  \<^verbatim>\<open>os.getenv\<close> gives a string or \<^verbatim>\<open>None\<close>; \<^verbatim>\<open>model\<close> is bound only when the
  configuration block at start-up did not raise.
\<close>

datatype gen_outcome = GenRaises exn | GenResponse "exn + string"

record env =
  NOTION_KEY :: "string option"
  NOTION_DATABASE_ID :: "string option"
  model :: "(string \<Rightarrow> gen_outcome) option"

definition fmt_env :: "string option \<Rightarrow> string" where
  "fmt_env v = (case v of None \<Rightarrow> ''None'' | Some s \<Rightarrow> s)"

definition json_env :: "string option \<Rightarrow> json" where
  "json_env v = (case v of None \<Rightarrow> JNull | Some s \<Rightarrow> JStr s)"

section \<open>The HTTP transport and the user interface as explicit state\<close>

record request =
  url :: string
  headers :: "(string \<times> string) list"
  payload :: json

text \<open>
  A response: its status, its text, and what \<^verbatim>\<open>response.json()\<close> gives
  (\<open>None\<close> when the body is not valid JSON and the call raises).
\<close>

record response =
  status_code :: int
  resp_text :: string
  resp_json :: "json option"

datatype outcome = Throws exn | Responds response

datatype ui_msg =
    AuthenticationError
  | ConnectionFailed exn
  | FailedToPost string
  | JobPosted
  | FillInWarning

text \<open>
  What a run leaves behind: the requests handed to \<^verbatim>\<open>requests.post\<close>, the prompts
  handed to the model, and the messages shown on the page, each in order.
\<close>

record world =
  sent :: "request list"
  prompts :: "string list"
  shown :: "ui_msg list"

definition st_show :: "ui_msg \<Rightarrow> world \<Rightarrow> world" where
  "st_show m w = w\<lparr>shown := shown w @ [m]\<rparr>"

definition requests_post ::
  "(request \<Rightarrow> outcome) \<Rightarrow> request \<Rightarrow> world \<Rightarrow> outcome \<times> world" where
  "requests_post transport rq w = (transport rq, w\<lparr>sent := sent w @ [rq]\<rparr>)"

definition notion_headers :: "env \<Rightarrow> (string \<times> string) list" where
  "notion_headers e =
     [(''Authorization'', ''Bearer '' @ fmt_env (NOTION_KEY e)),
      (''Content-Type'', ''application/json''),
      (''Notion-Version'', ''2022-06-28'')]"

section \<open>Listing repository: fetch\<close>

text \<open>\<^verbatim>\<open>props.get(NAME, {}).get(KEY, [])\<close>\<close>

definition prop_list :: "json \<Rightarrow> string \<Rightarrow> string \<Rightarrow> exn + json" where
  "prop_list props nm key = and_then (py_get props nm (JObj [])) (\<lambda>p. py_get p key (JArr []))"

text \<open>\<^verbatim>\<open>lst[0]["plain_text"] if lst else DEFAULT\<close>\<close>

definition first_plain_text :: "json \<Rightarrow> json \<Rightarrow> exn + json" where
  "first_plain_text lst dflt =
     (if truthy lst then and_then (py_index0 lst) (\<lambda>frag. py_item frag ''plain_text'')
      else Inr dflt)"

text \<open>The body of the loop over the pages, up to the dict that is appended.\<close>

definition extract_page :: "pylib \<Rightarrow> json \<Rightarrow> exn + job" where
  "extract_page lib page =
     and_then (py_get page ''properties'' (JObj [])) (\<lambda>props.
     and_then (prop_list props ''Title'' ''title'') (\<lambda>title_list.
     and_then (first_plain_text title_list (JStr ''Untitled'')) (\<lambda>job_title.
     and_then (prop_list props ''Role'' ''rich_text'') (\<lambda>role_list.
     and_then (first_plain_text role_list (JStr '''')) (\<lambda>role_detail.
     and_then (prop_list props ''Company'' ''rich_text'') (\<lambda>comp_list.
     and_then (first_plain_text comp_list (JStr ''Unknown'')) (\<lambda>company'.
     and_then (prop_list props ''Required Skills'' ''rich_text'') (\<lambda>skills_list.
     and_then (first_plain_text skills_list (JStr '''')) (\<lambda>skills'.
     and_then (prop_list props ''Description'' ''rich_text'') (\<lambda>desc_list.
     and_then (first_plain_text desc_list (JStr '''')) (\<lambda>desc.
       Inr \<lparr>role = py_format lib job_title @ '' - '' @ py_format lib role_detail,
            company = company', skills = skills', description = desc\<rparr>)))))))))))"

text \<open>The loop: \<open>jobs\<close> is the list built so far; an exception leaves the loop.\<close>

fun collect_jobs :: "pylib \<Rightarrow> json list \<Rightarrow> job list \<Rightarrow> exn + job list" where
  "collect_jobs lib [] jobs = Inr jobs"
| "collect_jobs lib (page # rest) jobs =
     (case extract_page lib page of
        Inl e \<Rightarrow> Inl e
      | Inr j \<Rightarrow> collect_jobs lib rest (jobs @ [j]))"

definition fetch_request :: "env \<Rightarrow> request" where
  "fetch_request e =
     \<lparr>url = ''https://api.notion.com/v1/databases/'' @ fmt_env (NOTION_DATABASE_ID e) @ ''/query'',
      headers = notion_headers e,
      payload = JObj []\<rparr>"

text \<open>The statements after the authentication check, on the decoded document.\<close>

definition jobs_of_data :: "pylib \<Rightarrow> json \<Rightarrow> exn + job list" where
  "jobs_of_data lib data =
     and_then (py_get data ''results'' (JArr [])) (\<lambda>results.
     and_then (py_iter results) (\<lambda>pages. collect_jobs lib pages []))"

text \<open>The \<^verbatim>\<open>try\<close> block of \<^verbatim>\<open>fetch_jobs_from_notion\<close>.\<close>

definition fetch_try ::
  "pylib \<Rightarrow> env \<Rightarrow> (request \<Rightarrow> outcome) \<Rightarrow> world \<Rightarrow> (exn + job list) \<times> world" where
  "fetch_try lib e transport w =
     (case requests_post transport (fetch_request e) w of
        (Throws x, w1) \<Rightarrow> (Inl x, w1)
      | (Responds r, w1) \<Rightarrow>
          if status_code r = 401 then (Inr [], st_show AuthenticationError w1)
          else (case resp_json r of
                  None \<Rightarrow> (Inl JSONDecodeError, w1)
                | Some data \<Rightarrow> (jobs_of_data lib data, w1)))"

text \<open>
  The whole function: \<^verbatim>\<open>except Exception\<close> shows a message and returns the empty
  list. \<open>Inl\<close> in the result would be an exception that reaches the caller.
\<close>

definition fetch_jobs_from_notion ::
  "pylib \<Rightarrow> env \<Rightarrow> (request \<Rightarrow> outcome) \<Rightarrow> world \<Rightarrow> (exn + job list) \<times> world" where
  "fetch_jobs_from_notion lib e transport w =
     (case fetch_try lib e transport w of
        (Inl x, w1) \<Rightarrow> (Inr [], st_show (ConnectionFailed x) w1)
      | (Inr jobs, w1) \<Rightarrow> (Inr jobs, w1))"

section \<open>Listing repository: create\<close>

text \<open>\<^verbatim>\<open>[{"text": {"content": s}}]\<close>, the value under \<^verbatim>\<open>"title"\<close> or \<^verbatim>\<open>"rich_text"\<close>.\<close>

definition text_content :: "string \<Rightarrow> json" where
  "text_content s = JArr [JObj [(''text'', JObj [(''content'', JStr s)])]]"

definition post_properties ::
  "string \<Rightarrow> string \<Rightarrow> string \<Rightarrow> string \<Rightarrow> string \<Rightarrow> string \<Rightarrow> (string \<times> json) list" where
  "post_properties title role_detail company' skills' description' contact =
     [(''Title'', JObj [(''title'', text_content title)]),
      (''Role'', JObj [(''rich_text'', text_content role_detail)]),
      (''Company'', JObj [(''rich_text'', text_content company')]),
      (''Required Skills'', JObj [(''rich_text'', text_content skills')]),
      (''Description'', JObj [(''rich_text'', text_content description')]),
      (''Contact'', JObj [(''rich_text'', text_content contact)])]"

definition post_request ::
  "env \<Rightarrow> string \<Rightarrow> string \<Rightarrow> string \<Rightarrow> string \<Rightarrow> string \<Rightarrow> string \<Rightarrow> request" where
  "post_request e title role_detail company' skills' description' contact =
     \<lparr>url = ''https://api.notion.com/v1/pages'',
      headers = notion_headers e,
      payload = JObj
        [(''parent'', JObj [(''database_id'', json_env (NOTION_DATABASE_ID e))]),
         (''properties'',
            JObj (post_properties title role_detail company' skills' description' contact))]\<rparr>"

text \<open>
  The body of \<^verbatim>\<open>post_job_to_notion\<close>, entered once its six parameters are bound.
\<close>

definition post_job_to_notion ::
  "env \<Rightarrow> (request \<Rightarrow> outcome) \<Rightarrow>
   string \<Rightarrow> string \<Rightarrow> string \<Rightarrow> string \<Rightarrow> string \<Rightarrow> string \<Rightarrow> world \<Rightarrow> (exn + bool) \<times> world" where
  "post_job_to_notion e transport title role_detail company' skills' description' contact w =
     (case requests_post transport
             (post_request e title role_detail company' skills' description' contact) w of
        (Throws x, w1) \<Rightarrow> (Inr False, st_show (ConnectionFailed x) w1)
      | (Responds r, w1) \<Rightarrow>
          if status_code r = 200 then (Inr True, w1)
          else (Inr False, st_show (FailedToPost (resp_text r)) w1))"

text \<open>
  A call with positional arguments only. The function has six parameters and no
  default: any other number of arguments raises \<^verbatim>\<open>TypeError\<close> at the call, before the
  body (and its \<^verbatim>\<open>try\<close>) is entered.
\<close>

definition post_job_params :: "string list" where
  "post_job_params =
     [''title'', ''role_detail'', ''company'', ''skills'', ''description'', ''contact'']"

fun call_post_job_to_notion ::
  "env \<Rightarrow> (request \<Rightarrow> outcome) \<Rightarrow> string list \<Rightarrow> world \<Rightarrow> (exn + bool) \<times> world" where
  "call_post_job_to_notion e transport [a1, a2, a3, a4, a5, a6] w =
     post_job_to_notion e transport a1 a2 a3 a4 a5 a6 w"
| "call_post_job_to_notion e transport args w = (Inl TypeError, w)"

text \<open>The parameter that a positional argument list binds to each name.\<close>

definition slot :: "string list \<Rightarrow> string \<Rightarrow> string option" where
  "slot args nm = map_of (zip post_job_params args) nm"

section \<open>The recruiter's call site\<close>

text \<open>
  The argument list written at the call, from the five values the form collects
  (\<^verbatim>\<open>company_name\<close>, \<^verbatim>\<open>role_title\<close>, \<^verbatim>\<open>contact_info\<close>, \<^verbatim>\<open>req_skills\<close>, \<^verbatim>\<open>job_desc\<close>).
\<close>

definition recruiter_call_args ::
  "string \<Rightarrow> string \<Rightarrow> string \<Rightarrow> string \<Rightarrow> string \<Rightarrow> string list" where
  "recruiter_call_args company_name role_title contact_info req_skills job_desc =
     [role_title, company_name, req_skills, job_desc, contact_info]"

text \<open>
  The handler of the button: an empty string is false. Nothing around the call catches
  an exception, so \<open>Inl\<close> leaves the handler. The pause and the rerun of the page
  after a success are left out.
\<close>

definition recruiter_post_click ::
  "env \<Rightarrow> (request \<Rightarrow> outcome) \<Rightarrow>
   string \<Rightarrow> string \<Rightarrow> string \<Rightarrow> string \<Rightarrow> string \<Rightarrow> world \<Rightarrow> (exn + unit) \<times> world" where
  "recruiter_post_click e transport company_name role_title contact_info req_skills job_desc w =
     (if company_name \<noteq> [] \<and> role_title \<noteq> [] \<and> req_skills \<noteq> [] then
        (case call_post_job_to_notion e transport
                (recruiter_call_args company_name role_title contact_info req_skills job_desc) w of
           (Inl x, w1) \<Rightarrow> (Inl x, w1)
         | (Inr success, w1) \<Rightarrow> (Inr (), if success then st_show JobPosted w1 else w1))
      else (Inr (), st_show FillInWarning w))"

section \<open>Guidance generator\<close>

definition guidance_prompt :: "pylib \<Rightarrow> student_profile \<Rightarrow> job list \<Rightarrow> string" where
  "guidance_prompt lib profile job_market_data =
     ''\<newline>    You are an expert AI Career Counselor. \<newline>    \<newline>    1. ANALYZE the Student Profile:\<newline>    ''
     @ str_profile lib profile
     @ ''\<newline>    \<newline>    2. ANALYZE the Current Job Market (data fetched from real-time database):\<newline>    ''
     @ json_dumps lib job_market_data
     @ ''\<newline>    \<newline>    3. PROVIDE OUTPUT in strictly valid Markdown format:\<newline>''
     @ ''    - **Match Analysis**: Compare the student's skills to the specific jobs listed in the market data.\<newline>''
     @ ''    - **Skill Gap**: Identify exactly what skills (Python, SQL, Communication, etc.) the student lacks for the best matching roles.\<newline>''
     @ ''    - **Recommended Jobs**: List the top 2-3 specific roles from the market data that fit best.\<newline>''
     @ ''    - **Learning Path**: A short, bulleted list of what they should learn next.\<newline>''
     @ ''    \<newline>    Tone: Encouraging, professional, and specific.\<newline>    ''"

definition fallback_report :: string where
  "fallback_report = ''Sorry, I couldn't generate an analysis at this moment.''"

text \<open>
  The prompt is built before the \<^verbatim>\<open>try\<close>. Inside it, \<^verbatim>\<open>model\<close> may be unbound
  (\<^verbatim>\<open>NameError\<close>), the call may raise, and reading \<^verbatim>\<open>response.text\<close> may raise; each is
  caught and replaced by the fixed string. \<open>prompts\<close> records what the model was given.
\<close>

definition get_career_guidance ::
  "pylib \<Rightarrow> env \<Rightarrow> student_profile \<Rightarrow> job list \<Rightarrow> world \<Rightarrow> (exn + string) \<times> world" where
  "get_career_guidance lib e profile job_market_data w =
     (let prompt = guidance_prompt lib profile job_market_data in
      case model e of
        None \<Rightarrow> (Inr fallback_report, w)
      | Some generate_content \<Rightarrow>
          (case generate_content prompt of
             GenRaises x \<Rightarrow> Inr fallback_report
           | GenResponse (Inl x) \<Rightarrow> Inr fallback_report
           | GenResponse (Inr t) \<Rightarrow> Inr t,
           w\<lparr>prompts := prompts w @ [prompt]\<rparr>))"

section \<open>Well-formed pages, in the words of the specification\<close>

text \<open>
  The remote interface promises: every page has a \<^verbatim>\<open>properties\<close> map, every property
  holds, under its type name, an array of fragments, and every fragment has a
  \<^verbatim>\<open>plain_text\<close> string. Only the five columns that the fetch reads are constrained; a
  column may be absent from the map.
\<close>

definition wf_fragment :: "json \<Rightarrow> bool" where
  "wf_fragment frag =
     (case frag of
        JObj kvs \<Rightarrow> (case map_of kvs ''plain_text'' of Some (JStr s) \<Rightarrow> True | _ \<Rightarrow> False)
      | _ \<Rightarrow> False)"

definition wf_property :: "string \<Rightarrow> json \<Rightarrow> bool" where
  "wf_property key p =
     (case p of
        JObj kvs \<Rightarrow> (case map_of kvs key of Some (JArr frs) \<Rightarrow> list_all wf_fragment frs | _ \<Rightarrow> False)
      | _ \<Rightarrow> False)"

definition wf_column :: "(string \<times> json) list \<Rightarrow> string \<Rightarrow> string \<Rightarrow> bool" where
  "wf_column props nm key = (case map_of props nm of None \<Rightarrow> True | Some p \<Rightarrow> wf_property key p)"

definition wf_page :: "json \<Rightarrow> bool" where
  "wf_page page =
     (case page of
        JObj kvs \<Rightarrow>
          (case map_of kvs ''properties'' of
             Some (JObj props) \<Rightarrow>
               wf_column props ''Title'' ''title'' \<and>
               wf_column props ''Role'' ''rich_text'' \<and>
               wf_column props ''Company'' ''rich_text'' \<and>
               wf_column props ''Required Skills'' ''rich_text'' \<and>
               wf_column props ''Description'' ''rich_text''
           | _ \<Rightarrow> False)
      | _ \<Rightarrow> False)"

text \<open>
  A column is missing from a properties map when its name is absent, or when its object
  has nothing under the type name: no such key, or a value that Python counts as false
  (\<^verbatim>\<open>None\<close>, \<^verbatim>\<open>False\<close>, zero, an empty string, array or object).
\<close>

definition column_missing :: "(string \<times> json) list \<Rightarrow> string \<Rightarrow> string \<Rightarrow> bool" where
  "column_missing props nm key =
     (case map_of props nm of
        None \<Rightarrow> True
      | Some p \<Rightarrow>
          (case p of
             JObj kvs \<Rightarrow> (case map_of kvs key of None \<Rightarrow> True | Some v \<Rightarrow> \<not> truthy v)
           | _ \<Rightarrow> False))"

text \<open>
  The \<^verbatim>\<open>plain_text\<close> value of the first fragment of a column, when the column is an
  object that holds, under the type name, a non-empty array whose first element is an
  object with that key; further fragments and further keys are not looked at.
\<close>

definition first_fragment_text :: "(string \<times> json) list \<Rightarrow> string \<Rightarrow> string \<Rightarrow> json option" where
  "first_fragment_text props nm key =
     (case map_of props nm of
        None \<Rightarrow> None
      | Some p \<Rightarrow>
          (case p of
             JObj kvs \<Rightarrow>
               (case map_of kvs key of
                  None \<Rightarrow> None
                | Some v \<Rightarrow>
                    (case v of
                       JArr frs \<Rightarrow>
                         (case frs of
                            [] \<Rightarrow> None
                          | frag # others \<Rightarrow>
                              (case frag of JObj fk \<Rightarrow> map_of fk ''plain_text'' | _ \<Rightarrow> None))
                     | _ \<Rightarrow> None))
           | _ \<Rightarrow> None))"

text \<open>A column is readable when it is missing or has such a first fragment.\<close>

definition column_ok :: "(string \<times> json) list \<Rightarrow> string \<Rightarrow> string \<Rightarrow> bool" where
  "column_ok props nm key =
     (column_missing props nm key \<or> first_fragment_text props nm key \<noteq> None)"

text \<open>What a readable column contributes: the first fragment's value, else the default.\<close>

definition column_value :: "(string \<times> json) list \<Rightarrow> string \<Rightarrow> string \<Rightarrow> json \<Rightarrow> json" where
  "column_value props nm key dflt =
     (case first_fragment_text props nm key of None \<Rightarrow> dflt | Some v \<Rightarrow> v)"

text \<open>
  The properties map of a page: the page is an object, and \<^verbatim>\<open>properties\<close> is an object
  or is absent (then the map is empty).
\<close>

definition page_props :: "json \<Rightarrow> (string \<times> json) list option" where
  "page_props page =
     (case page of
        JObj kvs \<Rightarrow>
          (case map_of kvs ''properties'' of
             None \<Rightarrow> Some []
           | Some p \<Rightarrow> (case p of JObj props \<Rightarrow> Some props | _ \<Rightarrow> None))
      | _ \<Rightarrow> None)"

definition page_readable :: "json \<Rightarrow> bool" where
  "page_readable page =
     (case page_props page of
        None \<Rightarrow> False
      | Some props \<Rightarrow>
          column_ok props ''Title'' ''title'' \<and>
          column_ok props ''Role'' ''rich_text'' \<and>
          column_ok props ''Company'' ''rich_text'' \<and>
          column_ok props ''Required Skills'' ''rich_text'' \<and>
          column_ok props ''Description'' ''rich_text'')"

section \<open>Concrete inputs\<close>

text \<open>
  An instance of the library parameters, exact on \<^verbatim>\<open>None\<close> and the booleans; the
  concrete runs below format no other object that is not a string.
\<close>

definition sample_lib :: pylib where
  "sample_lib =
     \<lparr>str_value = (\<lambda>v. case v of JNull \<Rightarrow> ''None''
                          | JBool b \<Rightarrow> (if b then ''True'' else ''False'')
                          | _ \<Rightarrow> ''?''),
      str_profile = (\<lambda>p. s_name p @ ''; '' @ s_skills p @ ''; '' @ s_interests p),
      json_dumps = (\<lambda>js. concat (map role js))\<rparr>"

definition sample_env :: env where
  "sample_env = \<lparr>NOTION_KEY = Some ''secret'', NOTION_DATABASE_ID = Some ''db1'', model = None\<rparr>"

definition empty_world :: world where
  "empty_world = \<lparr>sent = [], prompts = [], shown = []\<rparr>"

definition ok_response :: "json \<Rightarrow> response" where
  "ok_response data = \<lparr>status_code = 200, resp_text = [], resp_json = Some data\<rparr>"

text \<open>A page with Title "Intern" and Role "Backend" and no other column.\<close>

definition intern_props :: "(string \<times> json) list" where
  "intern_props =
     [(''Title'', JObj [(''title'', JArr [JObj [(''plain_text'', JStr ''Intern'')]])]),
      (''Role'', JObj [(''rich_text'', JArr [JObj [(''plain_text'', JStr ''Backend'')]])])]"

definition intern_page :: json where
  "intern_page = JObj [(''properties'', JObj intern_props)]"

text \<open>A page whose Company column has a first fragment with \<^verbatim>\<open>"plain_text": null\<close>.\<close>

definition null_company_page :: json where
  "null_company_page =
     JObj [(''properties'', JObj
       [(''Company'', JObj [(''rich_text'', JArr [JObj [(''plain_text'', JNull)]])])])]"

text \<open>A page whose Company column has a first fragment without \<^verbatim>\<open>plain_text\<close>.\<close>

definition broken_page :: json where
  "broken_page =
     JObj [(''properties'', JObj
       [(''Company'', JObj [(''rich_text'', JArr [JObj [(''type'', JStr ''text'')]])])])]"

definition status_response :: "int \<Rightarrow> response" where
  "status_response n = \<lparr>status_code = n, resp_text = ''{}'', resp_json = Some (JObj [])\<rparr>"

text \<open>
  A page as the remote interface returns it, with two fragments in Title and in Role and
  further keys around them; Company, Required Skills and Description are absent.
\<close>

definition internship_props :: "(string \<times> json) list" where
  "internship_props =
     [(''Contact'', JObj [(''id'', JStr ''c1''), (''type'', JStr ''rich_text''),
                          (''rich_text'', JArr [JObj [(''plain_text'', JStr ''a@b.com'')]])]),
      (''Title'', JObj [(''id'', JStr ''title''), (''type'', JStr ''title''),
                        (''title'', JArr [JObj [(''type'', JStr ''text''), (''plain_text'', JStr ''Intern'')],
                                         JObj [(''type'', JStr ''text''), (''plain_text'', JStr ''ship'')]])]),
      (''Role'', JObj [(''id'', JStr ''r1''), (''type'', JStr ''rich_text''),
                       (''rich_text'', JArr [JObj [(''plain_text'', JStr ''Backend'')],
                                             JObj [(''plain_text'', JStr '' Developer'')]])])]"

definition internship_page :: "(string \<times> json) list" where
  "internship_page = [(''object'', JStr ''page''), (''properties'', JObj internship_props)]"

text \<open>
  A page with two Title fragments, a Role object without its type key, a Company whose
  \<^verbatim>\<open>rich_text\<close> is \<^verbatim>\<open>null\<close>, a Required Skills fragment whose \<^verbatim>\<open>plain_text\<close> is
  \<^verbatim>\<open>null\<close>, and no Description.
\<close>

definition mixed_props :: "(string \<times> json) list" where
  "mixed_props =
     [(''Title'', JObj [(''title'', JArr [JObj [(''plain_text'', JStr ''Intern'')],
                                         JObj [(''plain_text'', JStr ''ship'')]])]),
      (''Role'', JObj [(''type'', JStr ''rich_text'')]),
      (''Company'', JObj [(''rich_text'', JNull)]),
      (''Required Skills'', JObj [(''rich_text'', JArr [JObj [(''plain_text'', JNull)]])])]"

definition mixed_page :: json where
  "mixed_page = JObj [(''properties'', JObj mixed_props)]"

text \<open>A second well-formed page, with Title "Analyst" and Company "Acme".\<close>

definition analyst_page :: json where
  "analyst_page =
     JObj [(''properties'', JObj
       [(''Title'', JObj [(''title'', JArr [JObj [(''plain_text'', JStr ''Analyst'')]])]),
        (''Company'', JObj [(''rich_text'', JArr [JObj [(''plain_text'', JStr ''Acme'')]])])])]"

definition sample_profile :: student_profile where
  "sample_profile = \<lparr>s_name = ''Ada'', s_skills = ''Python'', s_interests = ''Data''\<rparr>"

definition other_profile :: student_profile where
  "other_profile = \<lparr>s_name = '''', s_skills = ''Excel'', s_interests = ''Marketing''\<rparr>"

definition sample_job :: job where
  "sample_job = \<lparr>role = ''Intern - Backend'', company = JStr ''Unknown'', skills = JStr '''',
                  description = JStr ''''\<rparr>"

text \<open>Two models: one whose call raises, one that answers.\<close>

definition raising_model :: "string \<Rightarrow> gen_outcome" where
  "raising_model prompt = GenRaises RequestException"

definition echo_model :: "string \<Rightarrow> gen_outcome" where
  "echo_model prompt = GenResponse (Inr (''## Match Analysis'' @ prompt))"

section \<open>Auxiliary facts\<close>

text \<open>The loop either fails or appends the extraction of every page, in order.\<close>

lemma collect_jobs_Inr:
  "collect_jobs lib pages acc = Inr jobs \<Longrightarrow>
   \<exists>js. jobs = acc @ js \<and> length js = length pages \<and>
        (\<forall>i<length pages. extract_page lib (pages ! i) = Inr (js ! i))"
proof (induction pages arbitrary: acc)
  case Nil
  then show ?case by simp
next
  case (Cons page rest)
  from Cons.prems obtain j where j: "extract_page lib page = Inr j"
    and rec: "collect_jobs lib rest (acc @ [j]) = Inr jobs"
    by (cases "extract_page lib page") simp_all
  from Cons.IH [OF rec] obtain js where js: "jobs = (acc @ [j]) @ js"
    "length js = length rest"
    "\<forall>i<length rest. extract_page lib (rest ! i) = Inr (js ! i)"
    by blast
  have "\<forall>i<length (page # rest). extract_page lib ((page # rest) ! i) = Inr ((j # js) ! i)"
  proof (intro allI impI)
    fix i assume "i < length (page # rest)"
    then show "extract_page lib ((page # rest) ! i) = Inr ((j # js) ! i)"
      using j js(3) by (cases i) simp_all
  qed
  with js(1,2) show ?case
    by (intro exI [of _ "j # js"]) simp
qed

lemma collect_jobs_all_ok:
  "\<forall>p\<in>set pages. \<exists>j. extract_page lib p = Inr j \<Longrightarrow> \<exists>jobs. collect_jobs lib pages acc = Inr jobs"
proof (induction pages arbitrary: acc)
  case Nil
  then show ?case by simp
next
  case (Cons page rest)
  then obtain j where "extract_page lib page = Inr j" by auto
  with Cons show ?case by simp
qed

lemma collect_jobs_raises:
  "p \<in> set pages \<Longrightarrow> extract_page lib p = Inl x \<Longrightarrow> \<exists>y. collect_jobs lib pages acc = Inl y"
proof (induction pages arbitrary: acc)
  case Nil
  then show ?case by simp
next
  case (Cons page rest)
  show ?case
  proof (cases "extract_page lib page")
    case (Inl y)
    then show ?thesis by simp
  next
    case (Inr j)
    with Cons.prems have "p \<in> set rest" by auto
    from Cons.IH [OF this Cons.prems(2)] Inr show ?thesis by simp
  qed
qed

text \<open>What the whole function returns, by cases on what the transport did.\<close>

lemma fetch_result:
  "fst (fetch_jobs_from_notion lib e transport w) =
     (case transport (fetch_request e) of
        Throws x \<Rightarrow> Inr []
      | Responds r \<Rightarrow>
          if status_code r = 401 then Inr []
          else (case resp_json r of
                  None \<Rightarrow> Inr []
                | Some data \<Rightarrow>
                    (case jobs_of_data lib data of Inl x \<Rightarrow> Inr [] | Inr jobs \<Rightarrow> Inr jobs)))"
  by (simp add: fetch_jobs_from_notion_def fetch_try_def requests_post_def
      split: outcome.split option.split sum.split)

lemma jobs_of_results:
  "map_of d ''results'' = Some (JArr pages) \<Longrightarrow>
   jobs_of_data lib (JObj d) = collect_jobs lib pages []"
  by (simp add: jobs_of_data_def and_then_def)

text \<open>The shapes that the well-formedness predicates describe.\<close>

lemma wf_fragment_shape:
  assumes "wf_fragment frag"
  shows "\<exists>kvs s. frag = JObj kvs \<and> map_of kvs ''plain_text'' = Some (JStr s)"
proof -
  from assms obtain kvs where f: "frag = JObj kvs"
    by (cases frag) (simp_all add: wf_fragment_def)
  with assms obtain v where v: "map_of kvs ''plain_text'' = Some v"
    by (cases "map_of kvs ''plain_text''") (simp_all add: wf_fragment_def)
  with assms f obtain s where "v = JStr s"
    by (cases v) (simp_all add: wf_fragment_def)
  with f v show ?thesis by simp
qed

lemma wf_property_shape:
  assumes "wf_property key p"
  shows "\<exists>kvs frs. p = JObj kvs \<and> map_of kvs key = Some (JArr frs) \<and> list_all wf_fragment frs"
proof -
  from assms obtain kvs where p: "p = JObj kvs"
    by (cases p) (simp_all add: wf_property_def)
  with assms obtain v where v: "map_of kvs key = Some v"
    by (cases "map_of kvs key") (simp_all add: wf_property_def)
  with assms p obtain frs where "v = JArr frs" "list_all wf_fragment frs"
    by (cases v) (simp_all add: wf_property_def)
  with p v show ?thesis by simp
qed

lemma wf_page_shape:
  assumes "wf_page page"
  shows "\<exists>kvs props. page = JObj kvs \<and> map_of kvs ''properties'' = Some (JObj props) \<and>
           wf_column props ''Title'' ''title'' \<and> wf_column props ''Role'' ''rich_text'' \<and>
           wf_column props ''Company'' ''rich_text'' \<and>
           wf_column props ''Required Skills'' ''rich_text'' \<and>
           wf_column props ''Description'' ''rich_text''"
proof -
  from assms obtain kvs where p: "page = JObj kvs"
    by (cases page) (simp_all add: wf_page_def)
  with assms obtain v where v: "map_of kvs ''properties'' = Some v"
    by (cases "map_of kvs ''properties''") (simp_all add: wf_page_def)
  with assms p obtain props where "v = JObj props"
    by (cases v) (simp_all add: wf_page_def)
  with assms p v show ?thesis by (simp add: wf_page_def)
qed

text \<open>One column of a well-formed properties map yields a string.\<close>

lemma wf_column_string:
  assumes "wf_column props nm key"
  shows "\<exists>l s. prop_list (JObj props) nm key = Inr l \<and> first_plain_text l (JStr dflt) = Inr (JStr s)"
proof (cases "map_of props nm")
  case None
  then show ?thesis
    by (simp add: prop_list_def and_then_def first_plain_text_def)
next
  case (Some p)
  with assms have "wf_property key p" by (simp add: wf_column_def)
  then obtain kvs frs where p: "p = JObj kvs" and k: "map_of kvs key = Some (JArr frs)"
    and frs: "list_all wf_fragment frs"
    using wf_property_shape by blast
  have l: "prop_list (JObj props) nm key = Inr (JArr frs)"
    using Some p k by (simp add: prop_list_def and_then_def)
  show ?thesis
  proof (cases frs)
    case Nil
    with l show ?thesis by (simp add: first_plain_text_def)
  next
    case (Cons f fs)
    with frs have "wf_fragment f" by simp
    then obtain fk s where "f = JObj fk" "map_of fk ''plain_text'' = Some (JStr s)"
      using wf_fragment_shape by blast
    with l Cons show ?thesis by (simp add: first_plain_text_def and_then_def)
  qed
qed

lemma wf_page_extract:
  assumes "wf_page page"
  shows "\<exists>t r c s d. extract_page lib page =
           Inr \<lparr>role = t @ '' - '' @ r, company = JStr c, skills = JStr s, description = JStr d\<rparr>"
proof -
  from assms obtain kvs props where page: "page = JObj kvs"
    and props: "map_of kvs ''properties'' = Some (JObj props)"
    and cols: "wf_column props ''Title'' ''title''" "wf_column props ''Role'' ''rich_text''"
      "wf_column props ''Company'' ''rich_text''" "wf_column props ''Required Skills'' ''rich_text''"
      "wf_column props ''Description'' ''rich_text''"
    using wf_page_shape by blast
  from wf_column_string [OF cols(1), of "''Untitled''"] obtain l1 t where
    c1: "prop_list (JObj props) ''Title'' ''title'' = Inr l1"
      "first_plain_text l1 (JStr ''Untitled'') = Inr (JStr t)" by blast
  from wf_column_string [OF cols(2), of "''''"] obtain l2 r where
    c2: "prop_list (JObj props) ''Role'' ''rich_text'' = Inr l2"
      "first_plain_text l2 (JStr '''') = Inr (JStr r)" by blast
  from wf_column_string [OF cols(3), of "''Unknown''"] obtain l3 c where
    c3: "prop_list (JObj props) ''Company'' ''rich_text'' = Inr l3"
      "first_plain_text l3 (JStr ''Unknown'') = Inr (JStr c)" by blast
  from wf_column_string [OF cols(4), of "''''"] obtain l4 s where
    c4: "prop_list (JObj props) ''Required Skills'' ''rich_text'' = Inr l4"
      "first_plain_text l4 (JStr '''') = Inr (JStr s)" by blast
  from wf_column_string [OF cols(5), of "''''"] obtain l5 d where
    c5: "prop_list (JObj props) ''Description'' ''rich_text'' = Inr l5"
      "first_plain_text l5 (JStr '''') = Inr (JStr d)" by blast
  have "extract_page lib page =
          Inr \<lparr>role = t @ '' - '' @ r, company = JStr c, skills = JStr s, description = JStr d\<rparr>"
    unfolding extract_page_def page
    by (simp add: props c1 c2 c3 c4 c5 and_then_def py_format_def)
  then show ?thesis by blast
qed

text \<open>A missing column never raises and yields the default it is given.\<close>

lemma column_missing_extracts:
  assumes "column_missing props nm key"
  shows "\<exists>l. prop_list (JObj props) nm key = Inr l \<and> first_plain_text l dflt = Inr dflt"
proof (cases "map_of props nm")
  case None
  then show ?thesis
    by (simp add: prop_list_def and_then_def first_plain_text_def)
next
  case (Some p)
  with assms obtain kvs where p: "p = JObj kvs"
    by (cases p) (simp_all add: column_missing_def)
  show ?thesis
  proof (cases "map_of kvs key")
    case None
    with Some p show ?thesis
      by (simp add: prop_list_def and_then_def first_plain_text_def)
  next
    case (Some v)
    with assms \<open>map_of props nm = Some p\<close> p have "\<not> truthy v"
      by (simp add: column_missing_def)
    with Some \<open>map_of props nm = Some p\<close> p show ?thesis
      by (simp add: prop_list_def and_then_def first_plain_text_def)
  qed
qed

text \<open>The shape behind a first fragment.\<close>

lemma first_fragment_text_shape:
  assumes "first_fragment_text props nm key = Some u"
  shows "\<exists>kvs others fk. map_of props nm = Some (JObj kvs) \<and>
           map_of kvs key = Some (JArr (JObj fk # others)) \<and> map_of fk ''plain_text'' = Some u"
proof -
  from assms obtain p where p: "map_of props nm = Some p"
    by (cases "map_of props nm") (simp_all add: first_fragment_text_def)
  with assms obtain kvs where k: "p = JObj kvs"
    by (cases p) (simp_all add: first_fragment_text_def)
  with assms p obtain v where v: "map_of kvs key = Some v"
    by (cases "map_of kvs key") (simp_all add: first_fragment_text_def)
  with assms p k obtain frs where f: "v = JArr frs"
    by (cases v) (simp_all add: first_fragment_text_def)
  with assms p k v obtain frag others where c: "frs = frag # others"
    by (cases frs) (simp_all add: first_fragment_text_def)
  with assms p k v f obtain fk where o: "frag = JObj fk"
    by (cases frag) (simp_all add: first_fragment_text_def)
  with assms p k v f c have "map_of fk ''plain_text'' = Some u"
    by (simp add: first_fragment_text_def)
  with p k v f c o show ?thesis by simp
qed

lemma first_fragment_text_extracts:
  assumes "first_fragment_text props nm key = Some u"
  shows "\<exists>l. prop_list (JObj props) nm key = Inr l \<and> first_plain_text l dflt = Inr u"
proof -
  from first_fragment_text_shape [OF assms] obtain kvs others fk where
    "map_of props nm = Some (JObj kvs)" "map_of kvs key = Some (JArr (JObj fk # others))"
    "map_of fk ''plain_text'' = Some u"
    by blast
  then show ?thesis
    by (simp add: prop_list_def and_then_def first_plain_text_def)
qed

lemma column_missing_no_fragment:
  assumes "column_missing props nm key"
  shows "first_fragment_text props nm key = None"
proof (cases "first_fragment_text props nm key")
  case None
  then show ?thesis .
next
  case (Some u)
  from first_fragment_text_shape [OF Some] obtain kvs others fk where
    "map_of props nm = Some (JObj kvs)" "map_of kvs key = Some (JArr (JObj fk # others))"
    by blast
  with assms show ?thesis by (simp add: column_missing_def)
qed

lemma column_value_missing:
  "column_missing props nm key \<Longrightarrow> column_value props nm key dflt = dflt"
  by (simp add: column_value_def column_missing_no_fragment)

lemma column_value_fragment:
  "first_fragment_text props nm key = Some u \<Longrightarrow> column_value props nm key dflt = u"
  by (simp add: column_value_def)

lemma column_ok_cases:
  "column_ok props nm key \<Longrightarrow>
   column_missing props nm key \<or> (\<exists>u. first_fragment_text props nm key = Some u)"
  by (auto simp: column_ok_def)

lemma column_ok_extracts:
  assumes "column_ok props nm key"
  shows "\<exists>l. prop_list (JObj props) nm key = Inr l \<and>
             first_plain_text l dflt = Inr (column_value props nm key dflt)"
proof -
  from column_ok_cases [OF assms] show ?thesis
  proof
    assume m: "column_missing props nm key"
    from column_missing_extracts [OF m, of dflt] column_value_missing [OF m, of dflt]
    show ?thesis by simp
  next
    assume "\<exists>u. first_fragment_text props nm key = Some u"
    then obtain u where u: "first_fragment_text props nm key = Some u" by blast
    from first_fragment_text_extracts [OF u, of dflt] column_value_fragment [OF u, of dflt]
    show ?thesis by simp
  qed
qed

lemma page_props_get:
  assumes "page_props page = Some props"
  shows "py_get page ''properties'' (JObj []) = Inr (JObj props)"
proof -
  from assms obtain kvs where page: "page = JObj kvs"
    by (cases page) (simp_all add: page_props_def)
  show ?thesis
  proof (cases "map_of kvs ''properties''")
    case None
    with assms page show ?thesis by (simp add: page_props_def)
  next
    case (Some p)
    with assms page obtain q where "p = JObj q"
      by (cases p) (simp_all add: page_props_def)
    with assms page Some show ?thesis by (simp add: page_props_def)
  qed
qed

text \<open>A page whose five columns are readable is extracted, column by column.\<close>

lemma readable_columns_extract:
  assumes props: "page_props page = Some props"
    and cols: "column_ok props ''Title'' ''title''" "column_ok props ''Role'' ''rich_text''"
      "column_ok props ''Company'' ''rich_text''" "column_ok props ''Required Skills'' ''rich_text''"
      "column_ok props ''Description'' ''rich_text''"
  shows "extract_page lib page =
           Inr \<lparr>role = py_format lib (column_value props ''Title'' ''title'' (JStr ''Untitled''))
                       @ '' - '' @
                       py_format lib (column_value props ''Role'' ''rich_text'' (JStr '''')),
                company = column_value props ''Company'' ''rich_text'' (JStr ''Unknown''),
                skills = column_value props ''Required Skills'' ''rich_text'' (JStr ''''),
                description = column_value props ''Description'' ''rich_text'' (JStr '''')\<rparr>"
proof -
  from column_ok_extracts [OF cols(1), of "JStr ''Untitled''"] obtain l1 where
    c1: "prop_list (JObj props) ''Title'' ''title'' = Inr l1"
      "first_plain_text l1 (JStr ''Untitled'')
         = Inr (column_value props ''Title'' ''title'' (JStr ''Untitled''))" by blast
  from column_ok_extracts [OF cols(2), of "JStr ''''"] obtain l2 where
    c2: "prop_list (JObj props) ''Role'' ''rich_text'' = Inr l2"
      "first_plain_text l2 (JStr '''')
         = Inr (column_value props ''Role'' ''rich_text'' (JStr ''''))" by blast
  from column_ok_extracts [OF cols(3), of "JStr ''Unknown''"] obtain l3 where
    c3: "prop_list (JObj props) ''Company'' ''rich_text'' = Inr l3"
      "first_plain_text l3 (JStr ''Unknown'')
         = Inr (column_value props ''Company'' ''rich_text'' (JStr ''Unknown''))" by blast
  from column_ok_extracts [OF cols(4), of "JStr ''''"] obtain l4 where
    c4: "prop_list (JObj props) ''Required Skills'' ''rich_text'' = Inr l4"
      "first_plain_text l4 (JStr '''')
         = Inr (column_value props ''Required Skills'' ''rich_text'' (JStr ''''))" by blast
  from column_ok_extracts [OF cols(5), of "JStr ''''"] obtain l5 where
    c5: "prop_list (JObj props) ''Description'' ''rich_text'' = Inr l5"
      "first_plain_text l5 (JStr '''')
         = Inr (column_value props ''Description'' ''rich_text'' (JStr ''''))" by blast
  show ?thesis
    unfolding extract_page_def
    by (simp add: page_props_get [OF props] c1 c2 c3 c4 c5 and_then_def)
qed

lemma page_readable_columns:
  assumes "page_readable page" and "page_props page = Some props"
  shows "column_ok props ''Title'' ''title''" "column_ok props ''Role'' ''rich_text''"
    "column_ok props ''Company'' ''rich_text''" "column_ok props ''Required Skills'' ''rich_text''"
    "column_ok props ''Description'' ''rich_text''"
  using assms by (simp_all add: page_readable_def)

lemma page_readable_extract:
  assumes "page_readable page"
  shows "\<exists>j. extract_page lib page = Inr j"
proof -
  from assms obtain props where p: "page_props page = Some props"
    by (cases "page_props page") (simp_all add: page_readable_def)
  from readable_columns_extract [OF p page_readable_columns [OF assms p], of lib]
  show ?thesis by blast
qed

text \<open>A readable column holds \<^verbatim>\<open>None\<close> only through a first fragment that holds it.\<close>

lemma column_value_null:
  assumes "column_ok props nm key" and "column_value props nm key (JStr dflt) = JNull"
  shows "first_fragment_text props nm key = Some JNull"
proof -
  from column_ok_cases [OF assms(1)] show ?thesis
  proof
    assume "column_missing props nm key"
    from column_value_missing [OF this, of "JStr dflt"] assms(2) show ?thesis by simp
  next
    assume "\<exists>u. first_fragment_text props nm key = Some u"
    then obtain u where u: "first_fragment_text props nm key = Some u" by blast
    from column_value_fragment [OF u, of "JStr dflt"] assms(2) u show ?thesis by simp
  qed
qed

lemma post_job_result:
  "fst (post_job_to_notion e transport title role_detail company' skills' description' contact w) =
     Inr (case transport (post_request e title role_detail company' skills' description' contact) of
            Throws x \<Rightarrow> False
          | Responds r \<Rightarrow> status_code r = 200)"
  by (simp add: post_job_to_notion_def requests_post_def split: outcome.split)

section \<open>The claims\<close>

text \<open>
  C1, as amended. Take a response that is not an authentication failure and whose
  results array holds pages in which each of the five columns is either missing (name
  absent, type key absent, or a false value under the type key) or has a first fragment
  object with a \<^verbatim>\<open>plain_text\<close> key. Then the fetch raises nothing and builds one listing
  per page, and in the listing of the \<open>i\<close>-th page each field, independently of the
  others, takes its documented default when its column is missing: "Untitled" for the
  title part and the empty string for the role part of the title line, "Unknown" for the
  company, the empty string for skills and description. A column with a first fragment
  gives that fragment's \<^verbatim>\<open>plain_text\<close> value: as it is for company, skills and
  description, formatted by the f-string for the two parts of the title line. Hence
  company, skills or description is \<^verbatim>\<open>None\<close> only when the first fragment of its column
  holds \<^verbatim>\<open>None\<close>.
\<close>

theorem fetch_defaults_for_missing_columns:
  assumes tr: "transport (fetch_request e) = Responds r"
    and status: "status_code r \<noteq> 401"
    and body: "resp_json r = Some (JObj d)"
    and results: "map_of d ''results'' = Some (JArr pages)"
    and readable: "list_all page_readable pages"
    and i: "i < length pages"
    and props: "page_props (pages ! i) = Some props"
  shows "\<exists>jobs. fst (fetch_jobs_from_notion lib e transport w) = Inr jobs \<and>
           length jobs = length pages \<and>
           (column_missing props ''Company'' ''rich_text'' \<longrightarrow>
              company (jobs ! i) = JStr ''Unknown'') \<and>
           (column_missing props ''Required Skills'' ''rich_text'' \<longrightarrow>
              skills (jobs ! i) = JStr '''') \<and>
           (column_missing props ''Description'' ''rich_text'' \<longrightarrow>
              description (jobs ! i) = JStr '''') \<and>
           (\<forall>v. first_fragment_text props ''Company'' ''rich_text'' = Some v \<longrightarrow>
              company (jobs ! i) = v) \<and>
           (\<forall>v. first_fragment_text props ''Required Skills'' ''rich_text'' = Some v \<longrightarrow>
              skills (jobs ! i) = v) \<and>
           (\<forall>v. first_fragment_text props ''Description'' ''rich_text'' = Some v \<longrightarrow>
              description (jobs ! i) = v) \<and>
           (\<exists>t r. role (jobs ! i) = t @ '' - '' @ r \<and>
              (column_missing props ''Title'' ''title'' \<longrightarrow> t = ''Untitled'') \<and>
              (column_missing props ''Role'' ''rich_text'' \<longrightarrow> r = '''') \<and>
              (\<forall>v. first_fragment_text props ''Title'' ''title'' = Some v \<longrightarrow>
                 t = py_format lib v) \<and>
              (\<forall>v. first_fragment_text props ''Role'' ''rich_text'' = Some v \<longrightarrow>
                 r = py_format lib v)) \<and>
           (company (jobs ! i) = JNull \<longrightarrow>
              first_fragment_text props ''Company'' ''rich_text'' = Some JNull) \<and>
           (skills (jobs ! i) = JNull \<longrightarrow>
              first_fragment_text props ''Required Skills'' ''rich_text'' = Some JNull) \<and>
           (description (jobs ! i) = JNull \<longrightarrow>
              first_fragment_text props ''Description'' ''rich_text'' = Some JNull)"
proof -
  have "\<forall>p\<in>set pages. \<exists>j. extract_page lib p = Inr j"
  proof
    fix p assume "p \<in> set pages"
    with readable have "page_readable p" by (simp add: list_all_iff)
    from page_readable_extract [OF this, of lib] show "\<exists>j. extract_page lib p = Inr j" .
  qed
  from collect_jobs_all_ok [OF this] obtain jobs where
    jobs: "collect_jobs lib pages [] = Inr jobs" by blast
  from collect_jobs_Inr [OF jobs] i have len: "length jobs = length pages"
    and ex: "extract_page lib (pages ! i) = Inr (jobs ! i)"
    by auto
  have run: "fst (fetch_jobs_from_notion lib e transport w) = Inr jobs"
    using tr status body jobs by (simp add: fetch_result jobs_of_results [OF results])
  from readable i have pr: "page_readable (pages ! i)" by (simp add: list_all_iff)
  note cols = page_readable_columns [OF pr props]
  let ?t = "py_format lib (column_value props ''Title'' ''title'' (JStr ''Untitled''))"
  let ?r = "py_format lib (column_value props ''Role'' ''rich_text'' (JStr ''''))"
  from readable_columns_extract [OF props cols, of lib] ex
  have j: "jobs ! i =
      \<lparr>role = ?t @ '' - '' @ ?r,
       company = column_value props ''Company'' ''rich_text'' (JStr ''Unknown''),
       skills = column_value props ''Required Skills'' ''rich_text'' (JStr ''''),
       description = column_value props ''Description'' ''rich_text'' (JStr '''')\<rparr>"
    by simp
  have d3: "column_missing props ''Company'' ''rich_text'' \<longrightarrow>
              company (jobs ! i) = JStr ''Unknown''"
    by (simp add: j column_value_missing)
  have d4: "column_missing props ''Required Skills'' ''rich_text'' \<longrightarrow>
              skills (jobs ! i) = JStr ''''"
    by (simp add: j column_value_missing)
  have d5: "column_missing props ''Description'' ''rich_text'' \<longrightarrow>
              description (jobs ! i) = JStr ''''"
    by (simp add: j column_value_missing)
  have f3: "\<forall>v. first_fragment_text props ''Company'' ''rich_text'' = Some v \<longrightarrow>
              company (jobs ! i) = v"
    by (simp add: j column_value_fragment)
  have f4: "\<forall>v. first_fragment_text props ''Required Skills'' ''rich_text'' = Some v \<longrightarrow>
              skills (jobs ! i) = v"
    by (simp add: j column_value_fragment)
  have f5: "\<forall>v. first_fragment_text props ''Description'' ''rich_text'' = Some v \<longrightarrow>
              description (jobs ! i) = v"
    by (simp add: j column_value_fragment)
  have "role (jobs ! i) = ?t @ '' - '' @ ?r \<and>
        (column_missing props ''Title'' ''title'' \<longrightarrow> ?t = ''Untitled'') \<and>
        (column_missing props ''Role'' ''rich_text'' \<longrightarrow> ?r = '''') \<and>
        (\<forall>v. first_fragment_text props ''Title'' ''title'' = Some v \<longrightarrow> ?t = py_format lib v) \<and>
        (\<forall>v. first_fragment_text props ''Role'' ''rich_text'' = Some v \<longrightarrow> ?r = py_format lib v)"
    by (simp add: j column_value_missing column_value_fragment py_format_def)
  then have tl: "\<exists>t r. role (jobs ! i) = t @ '' - '' @ r \<and>
        (column_missing props ''Title'' ''title'' \<longrightarrow> t = ''Untitled'') \<and>
        (column_missing props ''Role'' ''rich_text'' \<longrightarrow> r = '''') \<and>
        (\<forall>v. first_fragment_text props ''Title'' ''title'' = Some v \<longrightarrow> t = py_format lib v) \<and>
        (\<forall>v. first_fragment_text props ''Role'' ''rich_text'' = Some v \<longrightarrow> r = py_format lib v)"
    by blast
  have n3: "company (jobs ! i) = JNull \<longrightarrow>
              first_fragment_text props ''Company'' ''rich_text'' = Some JNull"
    using column_value_null [OF cols(3), of "''Unknown''"] by (simp add: j)
  have n4: "skills (jobs ! i) = JNull \<longrightarrow>
              first_fragment_text props ''Required Skills'' ''rich_text'' = Some JNull"
    using column_value_null [OF cols(4), of "''''"] by (simp add: j)
  have n5: "description (jobs ! i) = JNull \<longrightarrow>
              first_fragment_text props ''Description'' ''rich_text'' = Some JNull"
    using column_value_null [OF cols(5), of "''''"] by (simp add: j)
  from run len d3 d4 d5 f3 f4 f5 tl n3 n4 n5 show ?thesis
    by (intro exI [of _ jobs] conjI)
qed

theorem fetch_defaults_for_missing_columns_witness:
  "list_all page_readable [intern_page, mixed_page] \<and>
   page_props mixed_page = Some mixed_props \<and>
   column_missing mixed_props ''Role'' ''rich_text'' \<and>
   column_missing mixed_props ''Company'' ''rich_text'' \<and>
   column_missing mixed_props ''Description'' ''rich_text'' \<and>
   first_fragment_text mixed_props ''Title'' ''title'' = Some (JStr ''Intern'') \<and>
   first_fragment_text mixed_props ''Required Skills'' ''rich_text'' = Some JNull \<and>
   fst (fetch_jobs_from_notion sample_lib sample_env
          (\<lambda>rq. Responds (ok_response (JObj [(''results'', JArr [intern_page, mixed_page])])))
          empty_world)
     = Inr [\<lparr>role = ''Intern - Backend'', company = JStr ''Unknown'', skills = JStr '''',
             description = JStr ''''\<rparr>,
            \<lparr>role = ''Intern - '', company = JStr ''Unknown'', skills = JNull,
             description = JStr ''''\<rparr>]"
proof -
  let ?data = "JObj [(''results'', JArr [intern_page, mixed_page])]"
  let ?tr = "\<lambda>rq::request. Responds (ok_response ?data)"
  have h1: "?tr (fetch_request sample_env) = Responds (ok_response ?data)" by simp
  have h2: "status_code (ok_response ?data) \<noteq> 401" by (simp add: ok_response_def)
  have h3: "resp_json (ok_response ?data) = Some ?data" by (simp add: ok_response_def)
  have h4: "map_of [(''results'', JArr [intern_page, mixed_page])] ''results''
              = Some (JArr [intern_page, mixed_page])" by simp
  have h5: "list_all page_readable [intern_page, mixed_page]"
    by (simp add: page_readable_def page_props_def column_ok_def column_missing_def
        first_fragment_text_def intern_page_def intern_props_def mixed_page_def mixed_props_def)
  have h6: "(1::nat) < length [intern_page, mixed_page]" by simp
  have h7: "page_props ([intern_page, mixed_page] ! 1) = Some mixed_props"
    by (simp add: page_props_def mixed_page_def)
  have m: "column_missing mixed_props ''Role'' ''rich_text''"
    "column_missing mixed_props ''Company'' ''rich_text''"
    "column_missing mixed_props ''Description'' ''rich_text''"
    by (simp_all add: column_missing_def mixed_props_def)
  have f: "first_fragment_text mixed_props ''Title'' ''title'' = Some (JStr ''Intern'')"
    "first_fragment_text mixed_props ''Required Skills'' ''rich_text'' = Some JNull"
    by (simp_all add: first_fragment_text_def mixed_props_def)
  have e1: "extract_page sample_lib intern_page =
              Inr \<lparr>role = ''Intern - Backend'', company = JStr ''Unknown'', skills = JStr '''',
                   description = JStr ''''\<rparr>"
    by (simp add: extract_page_def prop_list_def first_plain_text_def and_then_def
        py_format_def intern_page_def intern_props_def)
  have e2: "extract_page sample_lib mixed_page =
              Inr \<lparr>role = ''Intern - '', company = JStr ''Unknown'', skills = JNull,
                   description = JStr ''''\<rparr>"
    by (simp add: extract_page_def prop_list_def first_plain_text_def and_then_def
        py_format_def mixed_page_def mixed_props_def)
  have run: "fst (fetch_jobs_from_notion sample_lib sample_env ?tr empty_world) =
      Inr [\<lparr>role = ''Intern - Backend'', company = JStr ''Unknown'', skills = JStr '''',
             description = JStr ''''\<rparr>,
            \<lparr>role = ''Intern - '', company = JStr ''Unknown'', skills = JNull,
             description = JStr ''''\<rparr>]"
    by (simp add: fetch_result ok_response_def jobs_of_data_def and_then_def e1 e2)
  from fetch_defaults_for_missing_columns [OF h1 h2 h3 h4 h5 h6 h7,
      where lib = sample_lib and w = empty_world]
  obtain jobs where
    "fst (fetch_jobs_from_notion sample_lib sample_env ?tr empty_world) = Inr jobs"
    "column_missing mixed_props ''Company'' ''rich_text'' \<longrightarrow>
       company (jobs ! 1) = JStr ''Unknown''"
    "\<forall>v. first_fragment_text mixed_props ''Required Skills'' ''rich_text'' = Some v \<longrightarrow>
       skills (jobs ! 1) = v"
    by blast
  with run m f h5 h7 show ?thesis by simp
qed

text \<open>
  C1 as stated fails: a page whose Company column is present, with a first fragment whose
  \<^verbatim>\<open>plain_text\<close> is \<^verbatim>\<open>null\<close>, gives a listing whose company is \<^verbatim>\<open>None\<close>, not the
  default "Unknown".
\<close>

theorem null_company_counterexample:
  "fst (fetch_jobs_from_notion sample_lib sample_env
          (\<lambda>rq. Responds (ok_response (JObj [(''results'', JArr [null_company_page])])))
          empty_world)
     = Inr [\<lparr>role = ''Untitled - '', company = JNull, skills = JStr '''',
             description = JStr ''''\<rparr>]"
  by (simp add: fetch_jobs_from_notion_def fetch_try_def requests_post_def jobs_of_data_def
      extract_page_def prop_list_def first_plain_text_def and_then_def py_format_def
      ok_response_def null_company_page_def)

text \<open>
  C2. For every transport, \<^verbatim>\<open>post_job_to_notion\<close> applied to six strings raises nothing
  and returns \<^verbatim>\<open>True\<close> exactly when the transport answers with status 200, \<^verbatim>\<open>False\<close> for
  every other status and when the transport raises. It sends one request, whose JSON body
  is the parent database together with the property map: "Title" as a title property and
  "Role", "Company", "Required Skills", "Description", "Contact" as rich-text properties,
  each wrapping the corresponding argument.
\<close>

theorem post_job_to_notion_result_and_body:
  "fst (post_job_to_notion e transport title role_detail company' skills' description' contact w) =
     Inr (case transport (post_request e title role_detail company' skills' description' contact) of
            Throws x \<Rightarrow> False
          | Responds r \<Rightarrow> status_code r = 200) \<and>
   sent (snd (post_job_to_notion e transport title role_detail company' skills' description' contact w)) =
     sent w @ [post_request e title role_detail company' skills' description' contact] \<and>
   payload (post_request e title role_detail company' skills' description' contact) =
     JObj [(''parent'', JObj [(''database_id'', json_env (NOTION_DATABASE_ID e))]),
           (''properties'', JObj
              [(''Title'', JObj [(''title'', JArr [JObj [(''text'', JObj [(''content'', JStr title)])]])]),
               (''Role'', JObj [(''rich_text'', JArr [JObj [(''text'', JObj [(''content'', JStr role_detail)])]])]),
               (''Company'', JObj [(''rich_text'', JArr [JObj [(''text'', JObj [(''content'', JStr company')])]])]),
               (''Required Skills'', JObj [(''rich_text'', JArr [JObj [(''text'', JObj [(''content'', JStr skills')])]])]),
               (''Description'', JObj [(''rich_text'', JArr [JObj [(''text'', JObj [(''content'', JStr description')])]])]),
               (''Contact'', JObj [(''rich_text'', JArr [JObj [(''text'', JObj [(''content'', JStr contact)])]])])])]"
proof (intro conjI)
  show "fst (post_job_to_notion e transport title role_detail company' skills' description' contact w) =
     Inr (case transport (post_request e title role_detail company' skills' description' contact) of
            Throws x \<Rightarrow> False
          | Responds r \<Rightarrow> status_code r = 200)"
    by (rule post_job_result)
  show "sent (snd (post_job_to_notion e transport title role_detail company' skills' description' contact w)) =
     sent w @ [post_request e title role_detail company' skills' description' contact]"
    by (simp add: post_job_to_notion_def requests_post_def st_show_def split: outcome.split)
  show "payload (post_request e title role_detail company' skills' description' contact) =
     JObj [(''parent'', JObj [(''database_id'', json_env (NOTION_DATABASE_ID e))]),
           (''properties'', JObj
              [(''Title'', JObj [(''title'', JArr [JObj [(''text'', JObj [(''content'', JStr title)])]])]),
               (''Role'', JObj [(''rich_text'', JArr [JObj [(''text'', JObj [(''content'', JStr role_detail)])]])]),
               (''Company'', JObj [(''rich_text'', JArr [JObj [(''text'', JObj [(''content'', JStr company')])]])]),
               (''Required Skills'', JObj [(''rich_text'', JArr [JObj [(''text'', JObj [(''content'', JStr skills')])]])]),
               (''Description'', JObj [(''rich_text'', JArr [JObj [(''text'', JObj [(''content'', JStr description')])]])]),
               (''Contact'', JObj [(''rich_text'', JArr [JObj [(''text'', JObj [(''content'', JStr contact)])]])])])]"
    by (simp add: post_request_def post_properties_def text_content_def)
qed

text \<open>
  C3. \<^verbatim>\<open>fetch_jobs_from_notion\<close> never raises to its caller, and it returns the empty
  list when the transport call raises, when the response body is not valid JSON, and when
  the response status is 401.
\<close>

theorem fetch_never_raises_and_empty_on_failure:
  "(\<exists>jobs. fst (fetch_jobs_from_notion lib e transport w) = Inr jobs) \<and>
   (transport (fetch_request e) = Throws x \<longrightarrow>
      fst (fetch_jobs_from_notion lib e transport w) = Inr []) \<and>
   (transport (fetch_request e) = Responds r \<and> resp_json r = None \<longrightarrow>
      fst (fetch_jobs_from_notion lib e transport w) = Inr []) \<and>
   (transport (fetch_request e) = Responds r \<and> status_code r = 401 \<longrightarrow>
      fst (fetch_jobs_from_notion lib e transport w) = Inr [])"
  by (simp add: fetch_result split: outcome.split option.split sum.split)

theorem fetch_never_raises_and_empty_on_failure_witness:
  "fst (fetch_jobs_from_notion sample_lib sample_env (\<lambda>rq. Throws RequestException) empty_world)
     = Inr [] \<and>
   fst (fetch_jobs_from_notion sample_lib sample_env
          (\<lambda>rq. Responds \<lparr>status_code = 200, resp_text = ''<html>'', resp_json = None\<rparr>)
          empty_world) = Inr [] \<and>
   fst (fetch_jobs_from_notion sample_lib sample_env
          (\<lambda>rq. Responds (status_response 401)) empty_world) = Inr []"
proof (intro conjI)
  show "fst (fetch_jobs_from_notion sample_lib sample_env (\<lambda>rq. Throws RequestException)
          empty_world) = Inr []"
    using fetch_never_raises_and_empty_on_failure
      [of sample_lib sample_env "\<lambda>rq. Throws RequestException" empty_world RequestException]
    by simp
  show "fst (fetch_jobs_from_notion sample_lib sample_env
          (\<lambda>rq. Responds \<lparr>status_code = 200, resp_text = ''<html>'', resp_json = None\<rparr>)
          empty_world) = Inr []"
    using fetch_never_raises_and_empty_on_failure
      [of sample_lib sample_env
          "\<lambda>rq. Responds \<lparr>status_code = 200, resp_text = ''<html>'', resp_json = None\<rparr>"
          empty_world _ "\<lparr>status_code = 200, resp_text = ''<html>'', resp_json = None\<rparr>"]
    by simp
  show "fst (fetch_jobs_from_notion sample_lib sample_env
          (\<lambda>rq. Responds (status_response 401)) empty_world) = Inr []"
    using fetch_never_raises_and_empty_on_failure
      [of sample_lib sample_env "\<lambda>rq. Responds (status_response 401)" empty_world _
          "status_response 401"]
    by (simp add: status_response_def)
qed

text \<open>
  C4. For every profile and every list of listings, when the model call throws (the model
  is unbound, the call raises, or reading the text of its response raises),
  \<^verbatim>\<open>get_career_guidance\<close> returns exactly the fixed fallback string and raises nothing.
\<close>

theorem guidance_fallback_when_model_throws:
  assumes "model e = None \<or>
           (\<exists>g. model e = Some g \<and>
              ((\<exists>x. g (guidance_prompt lib profile job_market_data) = GenRaises x) \<or>
               (\<exists>x. g (guidance_prompt lib profile job_market_data) = GenResponse (Inl x))))"
  shows "fst (get_career_guidance lib e profile job_market_data w) =
           Inr ''Sorry, I couldn't generate an analysis at this moment.''"
  using assms by (auto simp: get_career_guidance_def fallback_report_def Let_def)

theorem guidance_fallback_when_model_throws_witness:
  "fst (get_career_guidance sample_lib (sample_env\<lparr>model := Some raising_model\<rparr>)
          sample_profile [] empty_world) =
     Inr ''Sorry, I couldn't generate an analysis at this moment.'' \<and>
   fst (get_career_guidance sample_lib (sample_env\<lparr>model := Some raising_model\<rparr>)
          other_profile [sample_job] empty_world) =
     Inr ''Sorry, I couldn't generate an analysis at this moment.''"
proof -
  have h: "\<And>p js. model (sample_env\<lparr>model := Some raising_model\<rparr>) = None \<or>
           (\<exists>g. model (sample_env\<lparr>model := Some raising_model\<rparr>) = Some g \<and>
              ((\<exists>x. g (guidance_prompt sample_lib p js) = GenRaises x) \<or>
               (\<exists>x. g (guidance_prompt sample_lib p js) = GenResponse (Inl x))))"
    by (simp add: raising_model_def)
  show ?thesis
    using guidance_fallback_when_model_throws [OF h, of sample_profile "[]" empty_world]
      guidance_fallback_when_model_throws [OF h, of other_profile "[sample_job]" empty_world]
    by simp
qed

text \<open>
  C5. At the recruiter's call site the positional argument list puts the value collected
  as the job role or title in the \<^verbatim>\<open>title\<close> parameter and the value collected as the
  company name in the \<^verbatim>\<open>role_detail\<close> parameter.
\<close>

theorem recruiter_call_site_slots:
  "slot (recruiter_call_args company_name role_title contact_info req_skills job_desc) ''title''
     = Some role_title \<and>
   slot (recruiter_call_args company_name role_title contact_info req_skills job_desc) ''role_detail''
     = Some company_name"
  by (simp add: slot_def recruiter_call_args_def post_job_params_def)

text \<open>
  C6. The function has six parameters; the call with the five arguments of the scenario
  raises \<^verbatim>\<open>TypeError\<close> before the transport is used, whatever the transport would answer,
  and the exception reaches the caller.
\<close>

theorem create_with_five_arguments_raises:
  "call_post_job_to_notion e (\<lambda>rq. Responds (status_response 400))
     [''Dev'', ''Acme'', ''Python, SQL'', ''Build things'', ''a@b.com''] w = (Inl TypeError, w)"
  by simp

lemma create_with_six_arguments_status_400:
  "fst (call_post_job_to_notion e (\<lambda>rq. Responds (status_response 400))
     [''Dev'', ''Acme'', ''Python, SQL'', ''Build things'', ''a@b.com'', contact] w) = Inr False"
  by (simp add: post_job_result status_response_def)

lemma recruiter_post_click_raises:
  "company_name \<noteq> [] \<Longrightarrow> role_title \<noteq> [] \<Longrightarrow> req_skills \<noteq> [] \<Longrightarrow>
   recruiter_post_click e transport company_name role_title contact_info req_skills job_desc w
     = (Inl TypeError, w)"
  by (simp add: recruiter_post_click_def recruiter_call_args_def)

text \<open>
  C7. For every response that is not an authentication failure and whose body is a JSON
  object with a \<^verbatim>\<open>results\<close> array of well-formed pages, the fetch returns one listing per
  page, the \<open>i\<close>-th listing being the one extracted from the \<open>i\<close>-th page.
\<close>

theorem fetch_one_listing_per_page_in_order:
  assumes tr: "transport (fetch_request e) = Responds r"
    and status: "status_code r \<noteq> 401"
    and body: "resp_json r = Some (JObj d)"
    and results: "map_of d ''results'' = Some (JArr pages)"
    and wf: "list_all wf_page pages"
  shows "\<exists>jobs. fst (fetch_jobs_from_notion lib e transport w) = Inr jobs \<and>
           length jobs = length pages \<and>
           (\<forall>i<length pages. extract_page lib (pages ! i) = Inr (jobs ! i))"
proof -
  have "\<forall>p\<in>set pages. \<exists>j. extract_page lib p = Inr j"
  proof
    fix p assume "p \<in> set pages"
    with wf have "wf_page p" by (simp add: list_all_iff)
    from wf_page_extract [OF this, of lib] show "\<exists>j. extract_page lib p = Inr j" by blast
  qed
  from collect_jobs_all_ok [OF this] obtain jobs where
    jobs: "collect_jobs lib pages [] = Inr jobs" by blast
  from collect_jobs_Inr [OF jobs] have
    "length jobs = length pages \<and> (\<forall>i<length pages. extract_page lib (pages ! i) = Inr (jobs ! i))"
    by auto
  moreover have "fst (fetch_jobs_from_notion lib e transport w) = Inr jobs"
    using tr status body jobs by (simp add: fetch_result jobs_of_results [OF results])
  ultimately show ?thesis by blast
qed

theorem fetch_one_listing_per_page_in_order_witness:
  "list_all wf_page [intern_page, analyst_page] \<and>
   fst (fetch_jobs_from_notion sample_lib sample_env
          (\<lambda>rq. Responds (ok_response (JObj [(''results'', JArr [intern_page, analyst_page])])))
          empty_world)
     = Inr [\<lparr>role = ''Intern - Backend'', company = JStr ''Unknown'', skills = JStr '''',
              description = JStr ''''\<rparr>,
            \<lparr>role = ''Analyst - '', company = JStr ''Acme'', skills = JStr '''',
              description = JStr ''''\<rparr>]"
proof -
  let ?data = "JObj [(''results'', JArr [intern_page, analyst_page])]"
  let ?tr = "\<lambda>rq::request. Responds (ok_response ?data)"
  have h1: "?tr (fetch_request sample_env) = Responds (ok_response ?data)" by simp
  have h2: "status_code (ok_response ?data) \<noteq> 401" by (simp add: ok_response_def)
  have h3: "resp_json (ok_response ?data) = Some ?data" by (simp add: ok_response_def)
  have h4: "map_of [(''results'', JArr [intern_page, analyst_page])] ''results''
              = Some (JArr [intern_page, analyst_page])" by simp
  have h5: "list_all wf_page [intern_page, analyst_page]"
    by (simp add: wf_page_def wf_column_def wf_property_def wf_fragment_def
        intern_page_def intern_props_def analyst_page_def)
  have e1: "extract_page sample_lib intern_page =
              Inr \<lparr>role = ''Intern - Backend'', company = JStr ''Unknown'', skills = JStr '''',
                   description = JStr ''''\<rparr>"
    by (simp add: extract_page_def prop_list_def first_plain_text_def and_then_def
        py_format_def intern_page_def intern_props_def)
  have e2: "extract_page sample_lib analyst_page =
              Inr \<lparr>role = ''Analyst - '', company = JStr ''Acme'', skills = JStr '''',
                   description = JStr ''''\<rparr>"
    by (simp add: extract_page_def prop_list_def first_plain_text_def and_then_def
        py_format_def analyst_page_def)
  from fetch_one_listing_per_page_in_order [OF h1 h2 h3 h4 h5, where lib = sample_lib and w = empty_world]
  obtain jobs where run: "fst (fetch_jobs_from_notion sample_lib sample_env ?tr empty_world) = Inr jobs"
    and len: "length jobs = length [intern_page, analyst_page]"
    and nth: "\<forall>i<length [intern_page, analyst_page].
                extract_page sample_lib ([intern_page, analyst_page] ! i) = Inr (jobs ! i)"
    by blast
  from nth have "extract_page sample_lib intern_page = Inr (jobs ! 0)"
    and "extract_page sample_lib analyst_page = Inr (jobs ! 1)" by auto
  with e1 e2 have j: "jobs ! 0 = \<lparr>role = ''Intern - Backend'', company = JStr ''Unknown'',
        skills = JStr '''', description = JStr ''''\<rparr>"
      "jobs ! 1 = \<lparr>role = ''Analyst - '', company = JStr ''Acme'', skills = JStr '''',
        description = JStr ''''\<rparr>" by simp_all
  from len obtain a b where "jobs = [a, b]"
    by (cases jobs; simp) (rename_tac a rest, case_tac rest; simp)
  with j run h5 show ?thesis by simp
qed

text \<open>
  C8. Take a response that is not an authentication failure and whose results array
  holds one page, in which the first fragment of Title is "Intern" and the first fragment
  of Role is "Backend" (whatever fragments follow and whatever other keys and columns the
  page has), Company is absent, and Required Skills and Description are missing. The
  fetch returns exactly one listing: title line "Intern - Backend", company "Unknown",
  empty skills and description.
\<close>

theorem fetch_scenario_intern_backend:
  assumes tr: "transport (fetch_request e) = Responds r"
    and status: "status_code r \<noteq> 401"
    and body: "resp_json r = Some (JObj d)"
    and results: "map_of d ''results'' = Some (JArr [JObj pg])"
    and props: "map_of pg ''properties'' = Some (JObj props)"
    and title: "map_of props ''Title'' = Some (JObj tp)"
      "map_of tp ''title'' = Some (JArr (JObj tf # title_rest))"
      "map_of tf ''plain_text'' = Some (JStr ''Intern'')"
    and role: "map_of props ''Role'' = Some (JObj rp)"
      "map_of rp ''rich_text'' = Some (JArr (JObj rf # role_rest))"
      "map_of rf ''plain_text'' = Some (JStr ''Backend'')"
    and no_company: "map_of props ''Company'' = None"
    and no_skills: "column_missing props ''Required Skills'' ''rich_text''"
    and no_description: "column_missing props ''Description'' ''rich_text''"
  shows "fst (fetch_jobs_from_notion lib e transport w)
           = Inr [\<lparr>role = ''Intern - Backend'', company = JStr ''Unknown'', skills = JStr '''',
                    description = JStr ''''\<rparr>]"
proof -
  have pp: "page_props (JObj pg) = Some props"
    using props by (simp add: page_props_def)
  have t: "first_fragment_text props ''Title'' ''title'' = Some (JStr ''Intern'')"
    using title by (simp add: first_fragment_text_def)
  have ro: "first_fragment_text props ''Role'' ''rich_text'' = Some (JStr ''Backend'')"
    using role by (simp add: first_fragment_text_def)
  have c: "column_missing props ''Company'' ''rich_text''"
    using no_company by (simp add: column_missing_def)
  have cols: "column_ok props ''Title'' ''title''" "column_ok props ''Role'' ''rich_text''"
      "column_ok props ''Company'' ''rich_text''" "column_ok props ''Required Skills'' ''rich_text''"
      "column_ok props ''Description'' ''rich_text''"
    using t ro c no_skills no_description by (simp_all add: column_ok_def)
  have "extract_page lib (JObj pg) =
          Inr \<lparr>role = ''Intern - Backend'', company = JStr ''Unknown'', skills = JStr '''',
               description = JStr ''''\<rparr>"
    using readable_columns_extract [OF pp cols, of lib]
    by (simp add: column_value_fragment [OF t] column_value_fragment [OF ro]
        column_value_missing [OF c] column_value_missing [OF no_skills]
        column_value_missing [OF no_description] py_format_def)
  then have "collect_jobs lib [JObj pg] [] =
          Inr [\<lparr>role = ''Intern - Backend'', company = JStr ''Unknown'', skills = JStr '''',
                description = JStr ''''\<rparr>]"
    by simp
  with tr status body show ?thesis
    by (simp add: fetch_result jobs_of_results [OF results])
qed

theorem fetch_scenario_intern_backend_witness:
  "fst (fetch_jobs_from_notion sample_lib sample_env
          (\<lambda>rq. Responds (ok_response (JObj [(''results'', JArr [JObj internship_page])])))
          empty_world)
     = Inr [\<lparr>role = ''Intern - Backend'', company = JStr ''Unknown'', skills = JStr '''',
              description = JStr ''''\<rparr>]"
proof -
  let ?data = "JObj [(''results'', JArr [JObj internship_page])]"
  let ?tr = "\<lambda>rq::request. Responds (ok_response ?data)"
  let ?tf = "[(''type'', JStr ''text''), (''plain_text'', JStr ''Intern'')]"
  let ?tp = "[(''id'', JStr ''title''), (''type'', JStr ''title''),
              (''title'', JArr [JObj ?tf,
                               JObj [(''type'', JStr ''text''), (''plain_text'', JStr ''ship'')]])]"
  let ?rf = "[(''plain_text'', JStr ''Backend'')]"
  let ?rp = "[(''id'', JStr ''r1''), (''type'', JStr ''rich_text''),
              (''rich_text'', JArr [JObj ?rf, JObj [(''plain_text'', JStr '' Developer'')]])]"
  have h1: "?tr (fetch_request sample_env) = Responds (ok_response ?data)" by simp
  have h2: "status_code (ok_response ?data) \<noteq> 401" by (simp add: ok_response_def)
  have h3: "resp_json (ok_response ?data) = Some ?data" by (simp add: ok_response_def)
  have h4: "map_of [(''results'', JArr [JObj internship_page])] ''results''
              = Some (JArr [JObj internship_page])" by simp
  have h5: "map_of internship_page ''properties'' = Some (JObj internship_props)"
    by (simp add: internship_page_def)
  have t1: "map_of internship_props ''Title'' = Some (JObj ?tp)"
    by (simp add: internship_props_def)
  have t2: "map_of ?tp ''title'' = Some (JArr (JObj ?tf #
              [JObj [(''type'', JStr ''text''), (''plain_text'', JStr ''ship'')]]))"
    by simp
  have t3: "map_of ?tf ''plain_text'' = Some (JStr ''Intern'')" by simp
  have r1: "map_of internship_props ''Role'' = Some (JObj ?rp)"
    by (simp add: internship_props_def)
  have r2: "map_of ?rp ''rich_text'' = Some (JArr (JObj ?rf #
              [JObj [(''plain_text'', JStr '' Developer'')]]))"
    by simp
  have r3: "map_of ?rf ''plain_text'' = Some (JStr ''Backend'')" by simp
  have c: "map_of internship_props ''Company'' = None"
    by (simp add: internship_props_def)
  have s: "column_missing internship_props ''Required Skills'' ''rich_text''"
    by (simp add: column_missing_def internship_props_def)
  have d: "column_missing internship_props ''Description'' ''rich_text''"
    by (simp add: column_missing_def internship_props_def)
  show ?thesis
    by (rule fetch_scenario_intern_backend [OF h1 h2 h3 h4 h5 t1 t2 t3 r1 r2 r3 c s d])
qed

text \<open>
  C9. For a fixed profile and a fixed list of listings, the prompt handed to the model is
  the same string in any two invocations, whatever the configuration, the behaviour of
  the model and the earlier history of each invocation are.
\<close>

theorem guidance_prompt_same_across_invocations:
  assumes "model e1 = Some g1" and "model e2 = Some g2"
  shows "\<exists>p. prompts (snd (get_career_guidance lib e1 profile job_market_data w1)) = prompts w1 @ [p] \<and>
             prompts (snd (get_career_guidance lib e2 profile job_market_data w2)) = prompts w2 @ [p]"
  using assms by (simp add: get_career_guidance_def Let_def)

theorem guidance_prompt_same_across_invocations_witness:
  "prompts (snd (get_career_guidance sample_lib (sample_env\<lparr>model := Some raising_model\<rparr>)
            sample_profile [sample_job] empty_world)) =
     [guidance_prompt sample_lib sample_profile [sample_job]] \<and>
   prompts (snd (get_career_guidance sample_lib
            \<lparr>NOTION_KEY = None, NOTION_DATABASE_ID = None, model = Some echo_model\<rparr>
            sample_profile [sample_job] (empty_world\<lparr>prompts := [''earlier'']\<rparr>))) =
     [''earlier'', guidance_prompt sample_lib sample_profile [sample_job]]"
proof -
  have h1: "model (sample_env\<lparr>model := Some raising_model\<rparr>) = Some raising_model" by simp
  have h2: "model \<lparr>NOTION_KEY = None, NOTION_DATABASE_ID = None, model = Some echo_model\<rparr>
              = Some echo_model" by simp
  from guidance_prompt_same_across_invocations [OF h1 h2, of sample_lib sample_profile
      "[sample_job]" empty_world "empty_world\<lparr>prompts := [''earlier'']\<rparr>"]
  obtain p where
    "prompts (snd (get_career_guidance sample_lib (sample_env\<lparr>model := Some raising_model\<rparr>)
            sample_profile [sample_job] empty_world)) = prompts empty_world @ [p]"
    "prompts (snd (get_career_guidance sample_lib
            \<lparr>NOTION_KEY = None, NOTION_DATABASE_ID = None, model = Some echo_model\<rparr>
            sample_profile [sample_job] (empty_world\<lparr>prompts := [''earlier'']\<rparr>))) =
       prompts (empty_world\<lparr>prompts := [''earlier'']\<rparr>) @ [p]"
    by blast
  then show ?thesis
    by (simp add: get_career_guidance_def Let_def empty_world_def)
qed

text \<open>
  C10. When the extraction of any one page of the results array raises, the fetch returns
  the empty list: listings already built from earlier pages are dropped.
\<close>

theorem fetch_all_or_nothing:
  assumes tr: "transport (fetch_request e) = Responds r"
    and body: "resp_json r = Some (JObj d)"
    and results: "map_of d ''results'' = Some (JArr pages)"
    and p: "p \<in> set pages"
    and raises: "extract_page lib p = Inl x"
  shows "fst (fetch_jobs_from_notion lib e transport w) = Inr []"
proof -
  from collect_jobs_raises [OF p raises] obtain y where "collect_jobs lib pages [] = Inl y"
    by blast
  with tr body show ?thesis
    by (simp add: fetch_result jobs_of_results [OF results])
qed

theorem fetch_all_or_nothing_witness:
  "extract_page sample_lib intern_page =
     Inr \<lparr>role = ''Intern - Backend'', company = JStr ''Unknown'', skills = JStr '''',
          description = JStr ''''\<rparr> \<and>
   extract_page sample_lib broken_page = Inl KeyError \<and>
   fst (fetch_jobs_from_notion sample_lib sample_env
          (\<lambda>rq. Responds (ok_response (JObj [(''results'', JArr [intern_page, broken_page])])))
          empty_world) = Inr []"
proof -
  let ?data = "JObj [(''results'', JArr [intern_page, broken_page])]"
  let ?tr = "\<lambda>rq::request. Responds (ok_response ?data)"
  have h1: "?tr (fetch_request sample_env) = Responds (ok_response ?data)" by simp
  have h2: "resp_json (ok_response ?data) = Some ?data" by (simp add: ok_response_def)
  have h3: "map_of [(''results'', JArr [intern_page, broken_page])] ''results''
              = Some (JArr [intern_page, broken_page])" by simp
  have h4: "broken_page \<in> set [intern_page, broken_page]" by simp
  have h5: "extract_page sample_lib broken_page = Inl KeyError"
    by (simp add: extract_page_def prop_list_def first_plain_text_def and_then_def
        broken_page_def)
  have e1: "extract_page sample_lib intern_page =
              Inr \<lparr>role = ''Intern - Backend'', company = JStr ''Unknown'', skills = JStr '''',
                   description = JStr ''''\<rparr>"
    by (simp add: extract_page_def prop_list_def first_plain_text_def and_then_def
        py_format_def intern_page_def intern_props_def)
  from fetch_all_or_nothing [OF h1 h2 h3 h4 h5, where w = empty_world] e1 h5 show ?thesis by simp
qed


end
